theory Spec2Isabelle
  imports Main "HOL-Library.Word"
begin

section \<open>Stage 1: the spreadsheet-to-JSON converter (phase1/src/excel2json.go)\<close>

subsection \<open>Data model\<close>

text \<open>
  Go strings are byte sequences and \<^typ>\<open>string\<close> is a list of 8-bit characters.
  The fields \<open>PocetZaznamu\<close> and \<open>PocetAno\<close> are \<open>int64\<close>; the loop counters are Go
  \<open>int\<close>, taken at its 64-bit width, so that \<open>int64(totalRecords)\<close> is the identity.
\<close>

type_synonym int64 = "64 word"

type_synonym Prijde = string

definition Ano :: Prijde where
  "Ano = ''Ano''"

definition Empty :: Prijde where
  "Empty = ''''"

definition Ne :: Prijde where
  "Ne = ''Ne''"

record User =
  Jmeno :: string
  Email :: string
  Prijde :: Prijde

record Info =
  LastUpdate :: string
  Nadpis :: string
  Zprava :: string
  PocetZaznamu :: int64
  PocetAno :: int64

record Data72 =
  Info :: Info
  Users :: "User list"

text \<open>
  A run-time panic of the Go program. Indexing a slice out of range panics with the
  index and the length of the slice.
\<close>

datatype panic = IndexOutOfRange nat nat

definition index :: "'a list \<Rightarrow> nat \<Rightarrow> panic + 'a" where
  "index xs i = (if i < length xs then Inr (xs ! i) else Inl (IndexOutOfRange i (length xs)))"

subsection \<open>processRows\<close>

text \<open>
  The \<open>for i, row := range rows\<close> loop of \<open>processRows\<close>, with the loop index \<open>i\<close>
  and the three variables it updates: \<open>data.Users\<close>, \<open>totalRecords\<close> and \<open>totalAno\<close>.
  \<open>continue\<close> is the recursive call on the rest, \<open>break\<close> returns the accumulator.
  In \<open>len(row) < 6 || row[1] == ""\<close> the second operand is read only when the row has at
  least six cells, so no index of the loop body is out of range.
\<close>

fun processRows_loop ::
  "nat \<Rightarrow> string list list \<Rightarrow> User list \<times> int64 \<times> int64 \<Rightarrow> User list \<times> int64 \<times> int64" where
  "processRows_loop i [] acc = acc"
| "processRows_loop i (row # rest) (users, totalRecords, totalAno) =
     (if i < 3 then processRows_loop (i + 1) rest (users, totalRecords, totalAno)
      else if length row < 6 \<or> row ! 1 = '''' then (users, totalRecords, totalAno)
      else
        let user = \<lparr>Jmeno = row ! 1, Email = row ! 5, Prijde = row ! 0\<rparr>;
            totalAno' = (if Prijde user = Ano then totalAno + 1 else totalAno)
        in processRows_loop (i + 1) rest (users @ [user], totalRecords + 1, totalAno'))"

text \<open>
  The heading and the message are read under the guard \<open>len(rows) > 1\<close> only; the
  reads \<open>rows[0][1]\<close> and \<open>rows[1][1]\<close> panic on a row with fewer than two cells.
  \<open>now\<close> is the value of \<open>time.Now().Format("2.1.2006 15.04.05")\<close>.
\<close>

definition processRows_header :: "string list list \<Rightarrow> panic + string \<times> string" where
  "processRows_header rows =
     (if length rows > 1 then
        (case index (rows ! 0) 1 of
           Inl p \<Rightarrow> Inl p
         | Inr nadpis \<Rightarrow>
             (case index (rows ! 1) 1 of
                Inl p \<Rightarrow> Inl p
              | Inr zprava \<Rightarrow> Inr (nadpis, zprava)))
      else Inr ('''', ''''))"

definition processRows :: "string \<Rightarrow> string list list \<Rightarrow> panic + Data72" where
  "processRows now rows =
     (case processRows_header rows of
        Inl p \<Rightarrow> Inl p
      | Inr (nadpis, zprava) \<Rightarrow>
          (case processRows_loop 0 rows ([], 0, 0) of
             (users, totalRecords, totalAno) \<Rightarrow>
               Inr \<lparr>Info = \<lparr>LastUpdate = now, Nadpis = nadpis, Zprava = zprava,
                            PocetZaznamu = totalRecords, PocetAno = totalAno\<rparr>,
                    Users = users\<rparr>))"

section \<open>The operating system and the libraries\<close>

text \<open>
  The three programs call the operating system and three libraries (excelize, jlaffaye/ftp
  and the Go standard library). Their code is not part of the repository: each call is a
  field of the record \<open>sys\<close>. A run is the list of the calls and outputs made so far, in
  program order (\<open>event list\<close>); the reply to a call may depend on the whole run before it,
  which covers a file system and a server with state of their own.
\<close>

type_synonym File = nat
type_synonym ExcelFile = nat
type_synonym ServerConn = nat

text \<open>
  Errors. Stage 1 and stage 2 pass the error of the library on as it is; stage 3 wraps it
  with \<open>fmt.Errorf("...: %w", err)\<close>, one constructor for each format string.
\<close>

datatype error =
    LibError string
  | ConfigOpenError string error
  | ConfigDecodeError error
  | DialError error
  | LoginError error
  | LocalOpenError string error
  | ChangeDirError string error
  | StorError string error

text \<open>The texts that the programs print, one constructor for each format string.\<close>

datatype message =
    ConfigLoadFailed error
  | ExcelOpenFailed error
  | ReadRowsFailed error
  | WriteJSONFailed error
  | FileCreated string
  | ChdirFailed error
  | HugoBuildFailed error
  | HugoBuildSucceeded
  | ConnectFailed error
  | Connected
  | Uploaded string
  | UploadFailed string error

datatype event =
    OsOpen string
  | OsCreate string
  | FileClose File
  | JsonDecode File
  | JsonEncode File
  | ExcelOpenFile string
  | ExcelGetSheetName ExcelFile nat
  | ExcelGetRows ExcelFile string
  | ExcelClose ExcelFile
  | OsChdir string
  | ExecRun string
  | FtpDial string
  | FtpLogin ServerConn string string
  | FtpChangeDir ServerConn string
  | FtpStor ServerConn string File
  | FtpQuit ServerConn
  | Println message
  | LogPrint message
  | LogFatal message
  | RuntimePanic panic

record Phase1 =
  InputFile :: string
  OutputFile :: string

record Config_phase1 =
  Phase1 :: Phase1

record Phase3 =
  FtpHost :: string
  FtpUser :: string
  FtpPassword :: string
  RemoteDir :: string
  FilesToUpload :: "string list"

record Config_phase3 =
  Phase3 :: Phase3

record sys =
  os_Open :: "event list \<Rightarrow> string \<Rightarrow> error + File"
  os_Create :: "event list \<Rightarrow> string \<Rightarrow> error + File"
  os_Chdir :: "event list \<Rightarrow> string \<Rightarrow> error option"
  exec_Run :: "event list \<Rightarrow> string \<Rightarrow> error option"
  time_Now_Format :: "event list \<Rightarrow> string"
  strings_TrimSpace :: "string \<Rightarrow> string"
  json_Decode_phase1 :: "event list \<Rightarrow> File \<Rightarrow> error + Config_phase1"
  json_Decode_phase3 :: "event list \<Rightarrow> File \<Rightarrow> error + Config_phase3"
  json_Encode :: "event list \<Rightarrow> File \<Rightarrow> Data72 \<Rightarrow> error option"
  excelize_OpenFile :: "event list \<Rightarrow> string \<Rightarrow> error + ExcelFile"
  excelize_GetSheetName :: "event list \<Rightarrow> ExcelFile \<Rightarrow> nat \<Rightarrow> string"
  excelize_GetRows :: "event list \<Rightarrow> ExcelFile \<Rightarrow> string \<Rightarrow> error + string list list"
  ftp_Dial :: "event list \<Rightarrow> string \<Rightarrow> error + ServerConn"
  ftp_Login :: "event list \<Rightarrow> ServerConn \<Rightarrow> string \<Rightarrow> string \<Rightarrow> error option"
  ftp_ChangeDir :: "event list \<Rightarrow> ServerConn \<Rightarrow> string \<Rightarrow> error option"
  ftp_Stor :: "event list \<Rightarrow> ServerConn \<Rightarrow> string \<Rightarrow> File \<Rightarrow> error option"

text \<open>
  How a Go process ends: status 0 when \<open>main\<close> returns, status 1 from \<open>log.Fatalf\<close>
  (which calls \<open>os.Exit(1)\<close> and runs no deferred call), status 2 from a panic that nothing
  recovers (the deferred calls run first).
\<close>

definition exit_returned :: nat where
  "exit_returned = 0"

definition exit_log_Fatalf :: nat where
  "exit_log_Fatalf = 1"


section \<open>Stage 1: the main routine\<close>





section \<open>Stage 2: the site-build wrapper (phase2/src/hugo.go)\<close>


section \<open>Stage 3: the upload client (the FTP program of phase 3)\<close>

definition connectToFtp ::
  "sys \<Rightarrow> string \<Rightarrow> string \<Rightarrow> string \<Rightarrow> event list \<Rightarrow> (error + ServerConn) \<times> event list" where
  "connectToFtp sys ftpServer ftpUser ftpPassword t =
     (case ftp_Dial sys t ftpServer of
        Inl err \<Rightarrow> (Inl (DialError err), t @ [FtpDial ftpServer])
      | Inr conn \<Rightarrow>
          (case ftp_Login sys (t @ [FtpDial ftpServer]) conn ftpUser ftpPassword of
             Some err \<Rightarrow>
               (Inl (LoginError err), t @ [FtpDial ftpServer, FtpLogin conn ftpUser ftpPassword])
           | None \<Rightarrow>
               (Inr conn,
                t @ [FtpDial ftpServer, FtpLogin conn ftpUser ftpPassword, LogPrint Connected])))"

text \<open>
  \<open>uploadFile\<close>: the local file is opened under the name \<open>localFile\<close> and stored with
  \<open>conn.Stor(localFile, file)\<close>, the same string. \<open>file.Close()\<close> is deferred once the file
  is open.
\<close>

definition uploadFile ::
  "sys \<Rightarrow> ServerConn \<Rightarrow> string \<Rightarrow> string \<Rightarrow> event list \<Rightarrow> error option \<times> event list" where
  "uploadFile sys conn remoteDir localFile t =
     (case os_Open sys t localFile of
        Inl err \<Rightarrow> (Some (LocalOpenError localFile err), t @ [OsOpen localFile])
      | Inr file \<Rightarrow>
          (let t1 = t @ [OsOpen localFile];
               t2 = t1 @ [FtpChangeDir conn remoteDir];
               t3 = t2 @ [FtpStor conn localFile file]
           in case ftp_ChangeDir sys t1 conn remoteDir of
                Some err \<Rightarrow> (Some (ChangeDirError remoteDir err), t2 @ [FileClose file])
              | None \<Rightarrow>
                  (case ftp_Stor sys t2 conn localFile file of
                     Some err \<Rightarrow> (Some (StorError localFile err), t3 @ [FileClose file])
                   | None \<Rightarrow> (None, t3 @ [LogPrint (Uploaded localFile), FileClose file]))))"

definition loadConfig_phase3 ::
  "sys \<Rightarrow> string \<Rightarrow> event list \<Rightarrow> (error + Config_phase3) \<times> event list" where
  "loadConfig_phase3 sys filePath t =
     (case os_Open sys t filePath of
        Inl err \<Rightarrow> (Inl (ConfigOpenError filePath err), t @ [OsOpen filePath])
      | Inr file \<Rightarrow>
          (case json_Decode_phase3 sys (t @ [OsOpen filePath]) file of
             Inl err \<Rightarrow>
               (Inl (ConfigDecodeError err), t @ [OsOpen filePath, JsonDecode file, FileClose file])
           | Inr config \<Rightarrow> (Inr config, t @ [OsOpen filePath, JsonDecode file, FileClose file])))"

text \<open>
  The \<open>for _, file := range config.Phase3.FilesToUpload\<close> loop of \<open>main\<close>: the entry is
  trimmed, an empty one is skipped with \<open>continue\<close>, and an error of \<open>uploadFile\<close> is
  printed with \<open>log.Printf\<close>, after which the loop goes on.
\<close>

fun upload_loop :: "sys \<Rightarrow> ServerConn \<Rightarrow> string \<Rightarrow> string list \<Rightarrow> event list \<Rightarrow> event list" where
  "upload_loop sys conn remoteDir [] t = t"
| "upload_loop sys conn remoteDir (entry # rest) t =
     (let file = strings_TrimSpace sys entry
      in if file = '''' then upload_loop sys conn remoteDir rest t
         else
           (case uploadFile sys conn remoteDir file t of
              (Some err, t') \<Rightarrow>
                upload_loop sys conn remoteDir rest (t' @ [LogPrint (UploadFailed file err)])
            | (None, t') \<Rightarrow> upload_loop sys conn remoteDir rest t'))"

text \<open>
  \<open>main\<close> of stage 3. The two fatal branches end in \<open>log.Fatalf\<close>; \<open>conn.Quit()\<close> is
  deferred once the connection is open and runs when \<open>main\<close> returns after the loop.
\<close>

definition ftp_main :: "sys \<Rightarrow> nat \<times> event list" where
  "ftp_main sys =
     (case loadConfig_phase3 sys ''config.json'' [] of
        (Inl err, t1) \<Rightarrow> (exit_log_Fatalf, t1 @ [LogFatal (ConfigLoadFailed err)])
      | (Inr config, t1) \<Rightarrow>
          (case connectToFtp sys (FtpHost (Phase3 config)) (FtpUser (Phase3 config))
                  (FtpPassword (Phase3 config)) t1 of
             (Inl err, t2) \<Rightarrow> (exit_log_Fatalf, t2 @ [LogFatal (ConnectFailed err)])
           | (Inr conn, t2) \<Rightarrow>
               (exit_returned,
                upload_loop sys conn (RemoteDir (Phase3 config)) (FilesToUpload (Phase3 config)) t2
                  @ [FtpQuit conn])))"

section \<open>What a run shows, and the specification's notions\<close>

text \<open>The paths given to \<open>os.Open\<close> in a run, in order.\<close>

definition opened_files :: "event list \<Rightarrow> string list" where
  "opened_files t = concat (map (\<lambda>e. case e of OsOpen path \<Rightarrow> [path] | _ \<Rightarrow> []) t)"

text \<open>The remote names given to \<open>conn.Stor\<close> in a run, in order.\<close>

definition stored_names :: "event list \<Rightarrow> string list" where
  "stored_names t = concat (map (\<lambda>e. case e of FtpStor conn name file \<Rightarrow> [name] | _ \<Rightarrow> []) t)"

text \<open>The remote directories given to \<open>conn.ChangeDir\<close> in a run, in order.\<close>

definition changed_dirs :: "event list \<Rightarrow> string list" where
  "changed_dirs t = concat (map (\<lambda>e. case e of FtpChangeDir conn dir \<Rightarrow> [dir] | _ \<Rightarrow> []) t)"

text \<open>
  The specification's description of the attendee table: a row ends the data when it has
  fewer than six cells or an empty column 1; the rows consumed are those after the three
  header rows and before the first such row; a consumed row gives the record with the name
  from column 1, the email from column 5 and the flag from column 0.
\<close>

definition spec_end_of_data :: "string list \<Rightarrow> bool" where
  "spec_end_of_data row \<longleftrightarrow> length row < 6 \<or> row ! 1 = ''''"

definition spec_consumed :: "string list list \<Rightarrow> string list list" where
  "spec_consumed rows = takeWhile (\<lambda>row. \<not> spec_end_of_data row) (drop 3 rows)"

definition spec_record :: "string list \<Rightarrow> User" where
  "spec_record row = \<lparr>Jmeno = row ! 1, Email = row ! 5, Prijde = row ! 0\<rparr>"

text \<open>
  The grids on which both header reads of \<open>processRows\<close> are in range: those with at most
  one row (the reads are not made), and those whose rows 0 and 1 have two cells or more.
\<close>

definition header_indexable :: "string list list \<Rightarrow> bool" where
  "header_indexable rows \<longleftrightarrow>
     length rows \<le> 1 \<or> (2 \<le> length (rows ! 0) \<and> 2 \<le> length (rows ! 1))"

text \<open>
  The specification's list of the files to attempt: every entry trimmed, the empty ones
  removed, the order kept.
\<close>

definition spec_attempted :: "sys \<Rightarrow> string list \<Rightarrow> string list" where
  "spec_attempted sys entries = filter (\<lambda>file. file \<noteq> '''') (map (strings_TrimSpace sys) entries)"

text \<open>
  The specification's base name of a path, which the source never computes: the last
  element of the path, as \<open>filepath.Base\<close> of Go gives it with the separator \<open>/\<close>
  (trailing separators removed first; \<open>.\<close> for the empty path, \<open>/\<close> for a path of
  separators only).
\<close>

definition spec_base_name :: "string \<Rightarrow> string" where
  "spec_base_name path =
     (if path = '''' then ''.''
      else
        let stripped = rev (dropWhile (\<lambda>c. c = CHR ''/'') (rev path));
            element = rev (takeWhile (\<lambda>c. c \<noteq> CHR ''/'') (rev stripped))
        in if element = '''' then ''/'' else element)"

section \<open>Concrete systems and inputs\<close>

text \<open>
  A sheet with two header rows that have a heading and a message, an empty third row, four
  attendee rows (one of them with a flag that is neither \<open>Ano\<close> nor \<open>Ne\<close> nor empty), a
  row with an empty name, and one more row after it.
\<close>

definition example_rows :: "string list list" where
  "example_rows =
     [['''', ''Sraz 2025''],
      ['''', ''Sejdeme se v sobotu''],
      [],
      [''Ano'', ''Jan'', '''', '''', '''', ''jan@example.com''],
      [''Mozna'', ''Eva'', '''', '''', '''', ''eva@example.com''],
      [''Ne'', ''Petr'', '''', '''', '''', ''petr@example.com''],
      ['''', ''Iva'', '''', '''', '''', ''iva@example.com''],
      [''Ano'', '''', '''', '''', '''', ''nobody@example.com''],
      [''Ano'', ''Ota'', '''', '''', '''', ''ota@example.com'']]"

text \<open>Trimming of the ASCII white space, for the concrete systems below.\<close>

definition ascii_space :: "char \<Rightarrow> bool" where
  "ascii_space c \<longleftrightarrow> c \<in> set [CHR '' '', CHR 0x09, CHR 0x0A, CHR 0x0B, CHR 0x0C, CHR 0x0D]"

definition ascii_TrimSpace :: "string \<Rightarrow> string" where
  "ascii_TrimSpace s = rev (dropWhile ascii_space (rev (dropWhile ascii_space s)))"

definition example_config1 :: Config_phase1 where
  "example_config1 = \<lparr>Phase1 = \<lparr>InputFile = ''sraz.xlsx'', OutputFile = ''data.json''\<rparr>\<rparr>"

definition example_config3 :: Config_phase3 where
  "example_config3 =
     \<lparr>Phase3 = \<lparr>FtpHost = ''ftp.example.com:21'', FtpUser = ''uzivatel'', FtpPassword = ''heslo'',
                 RemoteDir = ''/www'',
                 FilesToUpload = ['' public/index.html '', '''', ''missing.txt'', ''notes.txt'']\<rparr>\<rparr>"

text \<open>
  A system in which every call succeeds, except that the local file \<open>missing.txt\<close> does
  not exist. A file handle is the number of calls made before it was opened.
\<close>

definition example_sys :: sys where
  "example_sys =
     \<lparr>os_Open = (\<lambda>t path. if path = ''missing.txt'' then Inl (LibError ''no such file'')
                            else Inr (length t)),
      os_Create = (\<lambda>t path. Inr (length t)),
      os_Chdir = (\<lambda>t dir. None),
      exec_Run = (\<lambda>t name. None),
      time_Now_Format = (\<lambda>t. ''1.2.2025 10.00.00''),
      strings_TrimSpace = ascii_TrimSpace,
      json_Decode_phase1 = (\<lambda>t file. Inr example_config1),
      json_Decode_phase3 = (\<lambda>t file. Inr example_config3),
      json_Encode = (\<lambda>t file data. None),
      excelize_OpenFile = (\<lambda>t path. Inr 1),
      excelize_GetSheetName = (\<lambda>t file i. ''List1''),
      excelize_GetRows = (\<lambda>t file sheet. Inr example_rows),
      ftp_Dial = (\<lambda>t host. Inr 7),
      ftp_Login = (\<lambda>t conn user password. None),
      ftp_ChangeDir = (\<lambda>t conn dir. None),
      ftp_Stor = (\<lambda>t conn name file. None)\<rparr>"


text \<open>The same system with a server that does not answer, and with one that refuses the login.\<close>

definition example_sys_no_dial :: sys where
  "example_sys_no_dial = example_sys\<lparr>ftp_Dial := (\<lambda>t host. Inl (LibError ''i/o timeout''))\<rparr>"

definition example_sys_no_login :: sys where
  "example_sys_no_login =
     example_sys\<lparr>ftp_Login := (\<lambda>t conn user password. Some (LibError ''530 Login incorrect''))\<rparr>"





text \<open>
  A sheet whose heading and message are in column 0, so that rows 0 and 1 have one cell
  each, followed by an empty row and one attendee row.
\<close>

definition example_rows_short_header :: "string list list" where
  "example_rows_short_header =
     [[''Sraz 2025''],
      [''Sejdeme se v sobotu''],
      [],
      [''Ano'', ''Jan'', '''', '''', '''', ''jan@example.com'']]"

section \<open>Stage 1: properties of processRows\<close>

lemma processRows_loop_data:
  "3 \<le> i \<Longrightarrow> processRows_loop i rows (us, n, a) =
     (us @ map spec_record (takeWhile (\<lambda>row. \<not> spec_end_of_data row) rows),
      n + of_nat (length (takeWhile (\<lambda>row. \<not> spec_end_of_data row) rows)),
      a + of_nat (length (filter (\<lambda>u. Prijde u = Ano)
                    (map spec_record (takeWhile (\<lambda>row. \<not> spec_end_of_data row) rows)))))"
proof (induction rows arbitrary: i us n a)
  case Nil
  then show ?case by simp
next
  case (Cons row rest)
  from Cons.prems have i: "\<not> i < 3" "3 \<le> i + 1" by simp_all
  show ?case
  proof (cases "spec_end_of_data row")
    case True
    with i show ?thesis by (simp add: spec_end_of_data_def)
  next
    case False
    with i Cons.IH [OF i(2)] show ?thesis
      by (simp add: spec_end_of_data_def spec_record_def Let_def)
  qed
qed

lemma processRows_loop_header:
  "i \<le> 3 \<Longrightarrow> processRows_loop i rows acc = processRows_loop 3 (drop (3 - i) rows) acc"
proof (induction rows arbitrary: i)
  case Nil
  then show ?case by simp
next
  case (Cons row rest)
  obtain us n a where acc: "acc = (us, n, a)" by (cases acc) auto
  show ?case
  proof (cases "i < 3")
    case True
    then have "3 - i = Suc (3 - (i + 1))" by simp
    with True Cons.IH [of "i + 1"] acc show ?thesis by simp
  next
    case False
    with Cons.prems have "i = 3" by simp
    then show ?thesis by simp
  qed
qed

lemma processRows_loop_eq:
  "processRows_loop 0 rows ([], 0, 0) =
     (map spec_record (spec_consumed rows), of_nat (length (spec_consumed rows)),
      of_nat (length (filter (\<lambda>u. Prijde u = Ano) (map spec_record (spec_consumed rows)))))"
  using processRows_loop_header [of 0 rows "([], 0, 0)"]
    processRows_loop_data [of 3 "drop 3 rows" "[]" 0 0]
  by (simp add: spec_consumed_def)

lemma processRows_header_eq:
  "processRows_header rows =
     (if 1 < length rows then
        (if length (rows ! 0) < 2 then Inl (IndexOutOfRange 1 (length (rows ! 0)))
         else if length (rows ! 1) < 2 then Inl (IndexOutOfRange 1 (length (rows ! 1)))
         else Inr (rows ! 0 ! 1, rows ! 1 ! 1))
      else Inr ('''', ''''))"
  by (auto simp: processRows_header_def index_def)

lemma processRows_returns:
  assumes "header_indexable rows"
  shows "processRows now rows =
     Inr \<lparr>Info = \<lparr>LastUpdate = now,
                  Nadpis = (if 1 < length rows then rows ! 0 ! 1 else ''''),
                  Zprava = (if 1 < length rows then rows ! 1 ! 1 else ''''),
                  PocetZaznamu = of_nat (length (spec_consumed rows)),
                  PocetAno = of_nat (length (filter (\<lambda>u. Prijde u = Ano)
                                       (map spec_record (spec_consumed rows))))\<rparr>,
          Users = map spec_record (spec_consumed rows)\<rparr>"
  using assms
  by (auto simp: processRows_def processRows_header_eq processRows_loop_eq header_indexable_def)

lemma length_spec_consumed: "length (spec_consumed rows) \<le> length rows"
proof -
  have "length (spec_consumed rows) \<le> length (drop 3 rows)"
    unfolding spec_consumed_def by (rule length_takeWhile_le)
  then show ?thesis by simp
qed

lemma sint_of_nat_int64: "n < 2 ^ 63 \<Longrightarrow> sint (of_nat n :: int64) = int n"
  by (simp add: signed_of_nat signed_take_bit_int_eq_self)

lemma header_indexable_example_rows: "header_indexable example_rows"
  by (simp add: header_indexable_def example_rows_def)

lemma spec_consumed_example_rows:
  "spec_consumed example_rows =
     [[''Ano'', ''Jan'', '''', '''', '''', ''jan@example.com''],
      [''Mozna'', ''Eva'', '''', '''', '''', ''eva@example.com''],
      [''Ne'', ''Petr'', '''', '''', '''', ''petr@example.com''],
      ['''', ''Iva'', '''', '''', '''', ''iva@example.com'']]"
  by (simp add: spec_consumed_def example_rows_def spec_end_of_data_def)

lemma processRows_returns_only:
  "processRows now rows = Inr data \<Longrightarrow> header_indexable rows"
  by (auto simp: processRows_def processRows_header_eq header_indexable_def
      split: if_splits sum.splits prod.splits)

lemma processRows_short_header:
  "processRows now example_rows_short_header = Inl (IndexOutOfRange 1 1)"
  by (simp add: processRows_def processRows_header_eq example_rows_short_header_def)

text \<open>
  C3 fails on the code by the unguarded header reads (the defect of C10). On the sheet
  \<open>example_rows_short_header\<close> the claim gives the attendee list of one record, built
  from row 3 after rows 0 to 2 are skipped, and a total-record count of 1; \<open>processRows\<close>
  panics at \<open>rows[0][1]\<close> with an index out of range, before its loop, and returns no
  summary.
\<close>

theorem processRows_users_short_header:
  "map spec_record (spec_consumed example_rows_short_header)
     = [\<lparr>Jmeno = ''Jan'', Email = ''jan@example.com'', Prijde = ''Ano''\<rparr>]
   \<and> processRows ''1.2.2025 10.00.00'' example_rows_short_header = Inl (IndexOutOfRange 1 1)"
proof
  show "map spec_record (spec_consumed example_rows_short_header)
     = [\<lparr>Jmeno = ''Jan'', Email = ''jan@example.com'', Prijde = ''Ano''\<rparr>]"
    by (simp add: spec_consumed_def spec_end_of_data_def spec_record_def
        example_rows_short_header_def)
  show "processRows ''1.2.2025 10.00.00'' example_rows_short_header = Inl (IndexOutOfRange 1 1)"
    by (rule processRows_short_header)
qed

text \<open>
  What the loop of \<open>processRows\<close> does on every grid, and \<open>processRows\<close> on every grid on
  which it returns: the attendee list is made of rows 3, 4, ... in order, up to and without
  the first row that has fewer than 6 cells or an empty column 1, each giving the record
  (name = column 1, email = column 5, flag = column 0), and the total-record count is the
  number of these rows.
\<close>

lemma processRows_returned_users:
  assumes "processRows now rows = Inr data" and "length rows < 2 ^ 63"
  shows "fst (processRows_loop 0 rows ([], 0, 0)) = map spec_record (spec_consumed rows)
         \<and> Users data = map spec_record (spec_consumed rows)
         \<and> sint (PocetZaznamu (Info data)) = int (length (spec_consumed rows))"
proof -
  from assms(1) have "header_indexable rows"
    by (rule processRows_returns_only)
  note ret = processRows_returns [OF this, of now]
  from assms(2) length_spec_consumed [of rows] have "length (spec_consumed rows) < 2 ^ 63"
    by simp
  then have "sint (of_nat (length (spec_consumed rows)) :: int64) = int (length (spec_consumed rows))"
    by (rule sint_of_nat_int64)
  with ret assms(1) show ?thesis by (auto simp: processRows_loop_eq)
qed

text \<open>
  C4. In every summary that \<open>processRows\<close> returns, the yes count \<open>pocetAno\<close> is the number
  of the records of its users list whose flag is \<open>"Ano"\<close>, and of no others (the length of
  the grid fits a Go \<open>int\<close>).
\<close>

theorem processRows_PocetAno:
  assumes "processRows now rows = Inr data" and "length rows < 2 ^ 63"
  shows "sint (PocetAno (Info data)) =
           int (length (filter (\<lambda>user. Prijde user = ''Ano'') (Users data)))"
proof -
  let ?yes = "filter (\<lambda>u. Prijde u = Ano) (map spec_record (spec_consumed rows))"
  from assms(1) have "header_indexable rows"
    by (rule processRows_returns_only)
  note ret = processRows_returns [OF this, of now]
  have "length ?yes \<le> length (map spec_record (spec_consumed rows))"
    by (rule length_filter_le)
  also have "\<dots> = length (spec_consumed rows)"
    by (rule length_map)
  also have "\<dots> \<le> length rows"
    by (rule length_spec_consumed)
  also note assms(2)
  finally have "length ?yes < 2 ^ 63" .
  then have "sint (of_nat (length ?yes) :: int64) = int (length ?yes)"
    by (rule sint_of_nat_int64)
  with ret assms(1) show ?thesis by (auto simp: Ano_def)
qed

theorem processRows_PocetAno_witness:
  "length example_rows < 2 ^ 63
   \<and> (\<exists>data. processRows ''1.2.2025 10.00.00'' example_rows = Inr data
        \<and> map Prijde (Users data) = [''Ano'', ''Mozna'', ''Ne'', '''']
        \<and> sint (PocetAno (Info data)) = 1)"
proof -
  have len: "length example_rows < 2 ^ 63" by (simp add: example_rows_def)
  from processRows_returns [OF header_indexable_example_rows, of "''1.2.2025 10.00.00''"]
  obtain data where data: "processRows ''1.2.2025 10.00.00'' example_rows = Inr data"
    and users: "Users data = map spec_record (spec_consumed example_rows)"
    by simp
  from processRows_PocetAno [OF data len]
  have yes: "sint (PocetAno (Info data)) =
               int (length (filter (\<lambda>user. Prijde user = ''Ano'') (Users data)))" .
  from users have flags: "map Prijde (Users data) = [''Ano'', ''Mozna'', ''Ne'', '''']"
    by (simp add: spec_consumed_example_rows spec_record_def)
  have "length (filter (\<lambda>user. Prijde user = ''Ano'') (Users data))
          = length (filter (\<lambda>flag. flag = ''Ano'') (map Prijde (Users data)))"
    by (simp add: filter_map comp_def)
  with flags yes have "sint (PocetAno (Info data)) = 1" by simp
  with data flags len show ?thesis by simp
qed

text \<open>
  C5 as stated fails: the flag is the cell of column 0 as it is, and \<open>processRows\<close>
  compares it with \<open>Ano\<close> only to count. On the example sheet the second record has the
  flag \<open>Mozna\<close>, which is none of \<open>Ano\<close>, \<open>Ne\<close> and the empty string.
\<close>

theorem processRows_flag_counterexample:
  "(case processRows ''1.2.2025 10.00.00'' example_rows of
      Inl p \<Rightarrow> []
    | Inr data \<Rightarrow> map Prijde (Users data)) = [''Ano'', ''Mozna'', ''Ne'', '''']
   \<and> ''Mozna'' \<notin> {Ano, Ne, Empty}"
  by (simp add: processRows_returns [OF header_indexable_example_rows]
      spec_consumed_example_rows spec_record_def Ano_def Ne_def Empty_def)

text \<open>
  C5, amended. On every grid whose header reads are in range, \<open>processRows\<close> returns a
  summary in which the flags of the attendee records are the cells of column 0 of the
  consumed rows, in order and unchanged, whatever strings these cells hold.
\<close>

theorem processRows_flag_verbatim:
  assumes "header_indexable rows"
  shows "\<exists>data. processRows now rows = Inr data
           \<and> map Prijde (Users data) = map (\<lambda>row. row ! 0) (spec_consumed rows)"
  using processRows_returns [OF assms, of now] by (simp add: spec_record_def comp_def)

theorem processRows_flag_verbatim_witness:
  "header_indexable example_rows
   \<and> (\<exists>data. processRows ''1.2.2025 10.00.00'' example_rows = Inr data
        \<and> map Prijde (Users data) = [''Ano'', ''Mozna'', ''Ne'', ''''])"
  using processRows_flag_verbatim [OF header_indexable_example_rows, of "''1.2.2025 10.00.00''"]
    header_indexable_example_rows
  by (simp add: spec_consumed_example_rows)

text \<open>
  C6 as stated fails: the heading and the message are read only when the grid has more
  than one row. A grid of one row has a cell at row 0, column 1, and the heading of its
  summary is empty.
\<close>

theorem processRows_heading_counterexample:
  "(case processRows ''1.2.2025 10.00.00'' [['''', ''Sraz 2025'']] of
      Inl p \<Rightarrow> None
    | Inr data \<Rightarrow> Some (Nadpis (Info data))) = Some ''''
   \<and> [['''', ''Sraz 2025'']] ! 0 ! 1 = ''Sraz 2025''"
  by (simp add: processRows_def processRows_header_def)

text \<open>
  C6, amended. On every grid with two rows or more whose rows 0 and 1 have two cells or
  more, the heading of the summary is the cell at row 0, column 1 and the message is the
  cell at row 1, column 1, unchanged; on every grid with fewer than two rows both are the
  empty string.
\<close>

theorem processRows_heading_message:
  assumes "header_indexable rows"
  shows "\<exists>data. processRows now rows = Inr data
           \<and> Nadpis (Info data) = (if 1 < length rows then rows ! 0 ! 1 else '''')
           \<and> Zprava (Info data) = (if 1 < length rows then rows ! 1 ! 1 else '''')"
  using processRows_returns [OF assms, of now] by simp

theorem processRows_heading_message_witness:
  "header_indexable example_rows
   \<and> (\<exists>data. processRows ''1.2.2025 10.00.00'' example_rows = Inr data
        \<and> Nadpis (Info data) = ''Sraz 2025''
        \<and> Zprava (Info data) = ''Sejdeme se v sobotu'')"
proof -
  have "1 < length example_rows" "example_rows ! 0 ! 1 = ''Sraz 2025''"
    "example_rows ! 1 ! 1 = ''Sejdeme se v sobotu''"
    by (simp_all add: example_rows_def)
  with processRows_heading_message [OF header_indexable_example_rows, of "''1.2.2025 10.00.00''"]
    header_indexable_example_rows
  show ?thesis by simp
qed

text \<open>
  C10. The header reads of \<open>processRows\<close> are guarded by the number of rows only:
  \<open>processRows\<close> panics with an index out of range exactly on the grids that have two rows
  or more and fewer than two cells in row 0 or in row 1, and returns a summary on all
  others.
\<close>

theorem processRows_panics:
  "(\<exists>p. processRows now rows = Inl p)
     \<longleftrightarrow> 1 < length rows \<and> (length (rows ! 0) < 2 \<or> length (rows ! 1) < 2)"
proof (cases "header_indexable rows")
  case True
  from processRows_returns [OF True, of now] True show ?thesis
    by (auto simp: header_indexable_def)
next
  case False
  then have "\<exists>p. processRows_header rows = Inl p"
    by (auto simp: processRows_header_eq header_indexable_def)
  then have "\<exists>p. processRows now rows = Inl p"
    by (auto simp: processRows_def)
  with False show ?thesis
    by (auto simp: header_indexable_def)
qed

theorem processRows_panics_witness:
  "1 < length [[''Sraz 2025''], ['''', ''Sejdeme se v sobotu'']]
   \<and> length ([[''Sraz 2025''], ['''', ''Sejdeme se v sobotu'']] ! 0) < 2
   \<and> (\<exists>p. processRows ''1.2.2025 10.00.00''
             [[''Sraz 2025''], ['''', ''Sejdeme se v sobotu'']] = Inl p)"
  using processRows_panics
    [of "''1.2.2025 10.00.00''" "[[''Sraz 2025''], ['''', ''Sejdeme se v sobotu'']]"]
  by simp

section \<open>Stage 3: properties of the upload client\<close>

lemma opened_files_append [simp]: "opened_files (t @ u) = opened_files t @ opened_files u"
  by (simp add: opened_files_def)

lemma stored_names_append [simp]: "stored_names (t @ u) = stored_names t @ stored_names u"
  by (simp add: stored_names_def)

lemma changed_dirs_append [simp]: "changed_dirs (t @ u) = changed_dirs t @ changed_dirs u"
  by (simp add: changed_dirs_def)

lemma opened_files_simps [simp]:
  "opened_files [] = []"
  "opened_files (e # t) = (case e of OsOpen path \<Rightarrow> [path] | _ \<Rightarrow> []) @ opened_files t"
  by (simp_all add: opened_files_def)

lemma stored_names_simps [simp]:
  "stored_names [] = []"
  "stored_names (e # t) = (case e of FtpStor conn name file \<Rightarrow> [name] | _ \<Rightarrow> []) @ stored_names t"
  by (simp_all add: stored_names_def)

lemma changed_dirs_simps [simp]:
  "changed_dirs [] = []"
  "changed_dirs (e # t) = (case e of FtpChangeDir conn dir \<Rightarrow> [dir] | _ \<Rightarrow> []) @ changed_dirs t"
  by (simp_all add: changed_dirs_def)

lemma opened_files_uploadFile:
  "opened_files (snd (uploadFile sys conn remoteDir localFile t)) = opened_files t @ [localFile]"
  by (simp add: uploadFile_def Let_def split: sum.splits option.splits)

lemma opened_files_upload_loop:
  "opened_files (upload_loop sys conn remoteDir entries t)
     = opened_files t @ spec_attempted sys entries"
proof (induction entries arbitrary: t)
  case Nil
  then show ?case by (simp add: spec_attempted_def)
next
  case (Cons entry rest)
  show ?case
  proof (cases "strings_TrimSpace sys entry = ''''")
    case True
    with Cons.IH [of t] show ?thesis by (simp add: spec_attempted_def)
  next
    case False
    obtain r t' where up: "uploadFile sys conn remoteDir (strings_TrimSpace sys entry) t = (r, t')"
      by (cases "uploadFile sys conn remoteDir (strings_TrimSpace sys entry) t") auto
    from opened_files_uploadFile [of sys conn remoteDir "strings_TrimSpace sys entry" t] up
    have t': "opened_files t' = opened_files t @ [strings_TrimSpace sys entry]" by simp
    show ?thesis
    proof (cases r)
      case None
      with False up t' Cons.IH [of t'] show ?thesis
        by (simp add: spec_attempted_def)
    next
      case (Some err)
      with False up t'
        Cons.IH [of "t' @ [LogPrint (UploadFailed (strings_TrimSpace sys entry) err)]"]
      show ?thesis
        by (simp add: spec_attempted_def)
    qed
  qed
qed

lemma upload_loop_append:
  "upload_loop sys conn remoteDir (before @ after) t
     = upload_loop sys conn remoteDir after (upload_loop sys conn remoteDir before t)"
  by (induction before arbitrary: t) (simp_all add: Let_def split: prod.splits option.splits)

lemma loadConfig_phase3_calls:
  assumes "loadConfig_phase3 sys filePath [] = (r, t)"
  shows "opened_files t = [filePath]" and "stored_names t = []" and "changed_dirs t = []"
  using assms
  by (auto simp: loadConfig_phase3_def split: sum.splits)

lemma connectToFtp_calls:
  assumes "connectToFtp sys ftpServer ftpUser ftpPassword t = (r, t')"
  shows "opened_files t' = opened_files t" and "stored_names t' = stored_names t"
    and "changed_dirs t' = changed_dirs t"
  using assms
  by (auto simp: connectToFtp_def split: sum.splits option.splits)

lemma example_sys_calls:
  "os_Open example_sys t path
     = (if path = ''missing.txt'' then Inl (LibError ''no such file'') else Inr (length t))"
  "strings_TrimSpace example_sys = ascii_TrimSpace"
  "json_Decode_phase3 example_sys t file = Inr example_config3"
  "ftp_Dial example_sys t host = Inr 7"
  "ftp_Login example_sys t conn user password = None"
  "ftp_ChangeDir example_sys t conn dir = None"
  "ftp_Stor example_sys t conn name file = None"
  by (simp_all add: example_sys_def)

lemma example_config3_fields:
  "FtpHost (Phase3 example_config3) = ''ftp.example.com:21''"
  "FtpUser (Phase3 example_config3) = ''uzivatel''"
  "FtpPassword (Phase3 example_config3) = ''heslo''"
  "RemoteDir (Phase3 example_config3) = ''/www''"
  "FilesToUpload (Phase3 example_config3)
     = ['' public/index.html '', '''', ''missing.txt'', ''notes.txt'']"
  by (simp_all add: example_config3_def)

lemma loadConfig_phase3_example:
  "loadConfig_phase3 example_sys ''config.json'' []
     = (Inr example_config3, [OsOpen ''config.json'', JsonDecode 0, FileClose 0])"
  by (simp add: loadConfig_phase3_def example_sys_calls)

lemma connectToFtp_example:
  "connectToFtp example_sys ''ftp.example.com:21'' ''uzivatel'' ''heslo'' t
     = (Inr 7, t @ [FtpDial ''ftp.example.com:21'', FtpLogin 7 ''uzivatel'' ''heslo'',
                    LogPrint Connected])"
  by (simp add: connectToFtp_def example_sys_calls)

lemma ascii_TrimSpace_examples:
  "ascii_TrimSpace '' public/index.html '' = ''public/index.html''"
  "ascii_TrimSpace '''' = ''''"
  "ascii_TrimSpace ''missing.txt'' = ''missing.txt''"
  "ascii_TrimSpace ''notes.txt'' = ''notes.txt''"
  by (simp_all add: ascii_TrimSpace_def ascii_space_def)

lemma spec_attempted_example:
  "spec_attempted example_sys ['' public/index.html '', '''', ''missing.txt'', ''notes.txt'']
     = [''public/index.html'', ''missing.txt'', ''notes.txt'']"
  by (simp add: spec_attempted_def example_sys_calls ascii_TrimSpace_examples)

text \<open>
  C7. When the configuration is loaded and the connection is open, the files opened in the
  run of \<open>main\<close> are the configuration file and then, in the order of the list, the
  entries of \<open>files_to_upload\<close> trimmed, without those that are empty after trimming; no
  open is made with the empty name.
\<close>

theorem ftp_main_attempted:
  assumes "loadConfig_phase3 sys ''config.json'' [] = (Inr config, t1)"
    and "connectToFtp sys (FtpHost (Phase3 config)) (FtpUser (Phase3 config))
           (FtpPassword (Phase3 config)) t1 = (Inr conn, t2)"
  shows "opened_files (snd (ftp_main sys))
           = ''config.json'' # spec_attempted sys (FilesToUpload (Phase3 config))
         \<and> '''' \<notin> set (opened_files (snd (ftp_main sys)))"
proof -
  from loadConfig_phase3_calls(1) [OF assms(1)] connectToFtp_calls(1) [OF assms(2)]
  have "opened_files t2 = [''config.json'']" by simp
  with assms have "opened_files (snd (ftp_main sys))
      = ''config.json'' # spec_attempted sys (FilesToUpload (Phase3 config))"
    by (simp add: ftp_main_def opened_files_upload_loop)
  then show ?thesis by (simp add: spec_attempted_def)
qed

theorem ftp_main_attempted_witness:
  "loadConfig_phase3 example_sys ''config.json'' []
     = (Inr example_config3, [OsOpen ''config.json'', JsonDecode 0, FileClose 0])
   \<and> FilesToUpload (Phase3 example_config3)
       = ['' public/index.html '', '''', ''missing.txt'', ''notes.txt'']
   \<and> opened_files (snd (ftp_main example_sys))
       = [''config.json'', ''public/index.html'', ''missing.txt'', ''notes.txt'']"
proof -
  have load: "loadConfig_phase3 example_sys ''config.json'' []
      = (Inr example_config3, [OsOpen ''config.json'', JsonDecode 0, FileClose 0])"
    by (rule loadConfig_phase3_example)
  have conn: "connectToFtp example_sys (FtpHost (Phase3 example_config3))
      (FtpUser (Phase3 example_config3)) (FtpPassword (Phase3 example_config3))
      [OsOpen ''config.json'', JsonDecode 0, FileClose 0]
      = (Inr 7, [OsOpen ''config.json'', JsonDecode 0, FileClose 0]
           @ [FtpDial ''ftp.example.com:21'', FtpLogin 7 ''uzivatel'' ''heslo'', LogPrint Connected])"
    by (simp add: example_config3_fields connectToFtp_example)
  have files: "FilesToUpload (Phase3 example_config3)
      = ['' public/index.html '', '''', ''missing.txt'', ''notes.txt'']"
    by (simp add: example_config3_fields)
  from ftp_main_attempted [OF load conn] load files show ?thesis
    by (simp add: spec_attempted_example)
qed

text \<open>
  The three ways in which \<open>uploadFile\<close> fails, and the error it returns in each: the local
  open, the change of the remote directory, the store.
\<close>

lemma uploadFile_result:
  "fst (uploadFile sys conn remoteDir localFile t) =
     (case os_Open sys t localFile of
        Inl err \<Rightarrow> Some (LocalOpenError localFile err)
      | Inr file \<Rightarrow>
          (case ftp_ChangeDir sys (t @ [OsOpen localFile]) conn remoteDir of
             Some err \<Rightarrow> Some (ChangeDirError remoteDir err)
           | None \<Rightarrow>
               (case ftp_Stor sys (t @ [OsOpen localFile, FtpChangeDir conn remoteDir]) conn
                       localFile file of
                  Some err \<Rightarrow> Some (StorError localFile err)
                | None \<Rightarrow> None)))"
  by (simp add: uploadFile_def Let_def split: sum.splits option.splits)

lemma upload_loop_example_before:
  "upload_loop example_sys 7 ''/www'' ['' public/index.html '', '''']
     [OsOpen ''config.json'', JsonDecode 0, FileClose 0, FtpDial ''ftp.example.com:21'',
      FtpLogin 7 ''uzivatel'' ''heslo'', LogPrint Connected]
   = [OsOpen ''config.json'', JsonDecode 0, FileClose 0, FtpDial ''ftp.example.com:21'',
      FtpLogin 7 ''uzivatel'' ''heslo'', LogPrint Connected, OsOpen ''public/index.html'',
      FtpChangeDir 7 ''/www'', FtpStor 7 ''public/index.html'' 6,
      LogPrint (Uploaded ''public/index.html''), FileClose 6]"
  by (simp add: uploadFile_def example_sys_calls ascii_TrimSpace_examples Let_def)

lemma ftp_main_example:
  "ftp_main example_sys =
     (0, [OsOpen ''config.json'', JsonDecode 0, FileClose 0, FtpDial ''ftp.example.com:21'',
          FtpLogin 7 ''uzivatel'' ''heslo'', LogPrint Connected, OsOpen ''public/index.html'',
          FtpChangeDir 7 ''/www'', FtpStor 7 ''public/index.html'' 6,
          LogPrint (Uploaded ''public/index.html''), FileClose 6, OsOpen ''missing.txt'',
          LogPrint (UploadFailed ''missing.txt''
                      (LocalOpenError ''missing.txt'' (LibError ''no such file''))),
          OsOpen ''notes.txt'', FtpChangeDir 7 ''/www'', FtpStor 7 ''notes.txt'' 13,
          LogPrint (Uploaded ''notes.txt''), FileClose 13, FtpQuit 7])"
  by (simp add: ftp_main_def loadConfig_phase3_example connectToFtp_example example_config3_fields
      uploadFile_def example_sys_calls ascii_TrimSpace_examples Let_def exit_returned_def)

text \<open>
  C8. When the configuration is loaded and the dial fails, or the dial succeeds and the
  login fails, \<open>main\<close> ends with status 1 and its run has no open of a local file other
  than the configuration file, no change of the remote directory and no store.
\<close>

theorem ftp_main_no_connection:
  assumes "loadConfig_phase3 sys ''config.json'' [] = (Inr config, t1)"
    and "(\<exists>err. ftp_Dial sys t1 (FtpHost (Phase3 config)) = Inl err)
         \<or> (\<exists>conn err. ftp_Dial sys t1 (FtpHost (Phase3 config)) = Inr conn
               \<and> ftp_Login sys (t1 @ [FtpDial (FtpHost (Phase3 config))]) conn
                    (FtpUser (Phase3 config)) (FtpPassword (Phase3 config)) = Some err)"
  shows "fst (ftp_main sys) = 1
         \<and> opened_files (snd (ftp_main sys)) = [''config.json'']
         \<and> changed_dirs (snd (ftp_main sys)) = []
         \<and> stored_names (snd (ftp_main sys)) = []"
proof -
  from assms(2) obtain err t2 where conn:
    "connectToFtp sys (FtpHost (Phase3 config)) (FtpUser (Phase3 config))
       (FtpPassword (Phase3 config)) t1 = (Inl err, t2)"
    by (auto simp: connectToFtp_def)
  from assms(1) conn have main: "ftp_main sys = (1, t2 @ [LogFatal (ConnectFailed err)])"
    by (simp add: ftp_main_def exit_log_Fatalf_def)
  from loadConfig_phase3_calls [OF assms(1)] connectToFtp_calls [OF conn]
  have "opened_files t2 = [''config.json'']" "changed_dirs t2 = []" "stored_names t2 = []"
    by simp_all
  with main show ?thesis by simp
qed

theorem ftp_main_no_connection_witness:
  "(fst (ftp_main example_sys_no_dial) = 1
    \<and> opened_files (snd (ftp_main example_sys_no_dial)) = [''config.json'']
    \<and> changed_dirs (snd (ftp_main example_sys_no_dial)) = []
    \<and> stored_names (snd (ftp_main example_sys_no_dial)) = [])
   \<and> (fst (ftp_main example_sys_no_login) = 1
    \<and> opened_files (snd (ftp_main example_sys_no_login)) = [''config.json'']
    \<and> changed_dirs (snd (ftp_main example_sys_no_login)) = []
    \<and> stored_names (snd (ftp_main example_sys_no_login)) = [])"
proof -
  have load1: "loadConfig_phase3 example_sys_no_dial ''config.json'' []
      = (Inr example_config3, [OsOpen ''config.json'', JsonDecode 0, FileClose 0])"
    by (simp add: loadConfig_phase3_def example_sys_no_dial_def example_sys_def)
  have dial: "\<exists>err. ftp_Dial example_sys_no_dial [OsOpen ''config.json'', JsonDecode 0, FileClose 0]
      (FtpHost (Phase3 example_config3)) = Inl err"
    by (simp add: example_sys_no_dial_def)
  have load2: "loadConfig_phase3 example_sys_no_login ''config.json'' []
      = (Inr example_config3, [OsOpen ''config.json'', JsonDecode 0, FileClose 0])"
    by (simp add: loadConfig_phase3_def example_sys_no_login_def example_sys_def)
  have login: "\<exists>conn err.
      ftp_Dial example_sys_no_login [OsOpen ''config.json'', JsonDecode 0, FileClose 0]
        (FtpHost (Phase3 example_config3)) = Inr conn
      \<and> ftp_Login example_sys_no_login
          ([OsOpen ''config.json'', JsonDecode 0, FileClose 0]
             @ [FtpDial (FtpHost (Phase3 example_config3))]) conn
          (FtpUser (Phase3 example_config3)) (FtpPassword (Phase3 example_config3)) = Some err"
    by (simp add: example_sys_no_login_def example_sys_def)
  from ftp_main_no_connection [OF load1 disjI1 [OF dial]]
    ftp_main_no_connection [OF load2 disjI2 [OF login]]
  show ?thesis by simp
qed

text \<open>
  C9. When the upload of an entry of the list fails (whichever of the local open, the
  change of the remote directory and the store failed), \<open>main\<close> prints the error with the
  name of the file, goes on with the entries after it exactly as the loop does from the
  run reached, opens every one of them that is not empty after trimming, and returns
  with status 0.
\<close>

theorem ftp_main_upload_failure:
  assumes "loadConfig_phase3 sys ''config.json'' [] = (Inr config, t1)"
    and "connectToFtp sys (FtpHost (Phase3 config)) (FtpUser (Phase3 config))
           (FtpPassword (Phase3 config)) t1 = (Inr conn, t2)"
    and "FilesToUpload (Phase3 config) = before @ entry # after"
    and "strings_TrimSpace sys entry \<noteq> ''''"
    and "uploadFile sys conn (RemoteDir (Phase3 config)) (strings_TrimSpace sys entry)
           (upload_loop sys conn (RemoteDir (Phase3 config)) before t2) = (Some err, t3)"
  shows "fst (ftp_main sys) = 0
         \<and> snd (ftp_main sys) =
             upload_loop sys conn (RemoteDir (Phase3 config)) after
               (t3 @ [LogPrint (UploadFailed (strings_TrimSpace sys entry) err)]) @ [FtpQuit conn]
         \<and> opened_files (snd (ftp_main sys)) = opened_files t3 @ spec_attempted sys after"
proof -
  let ?dir = "RemoteDir (Phase3 config)"
  let ?log = "LogPrint (UploadFailed (strings_TrimSpace sys entry) err)"
  have "upload_loop sys conn ?dir (before @ entry # after) t2
      = upload_loop sys conn ?dir (entry # after) (upload_loop sys conn ?dir before t2)"
    by (rule upload_loop_append)
  also from assms(4,5) have "\<dots> = upload_loop sys conn ?dir after (t3 @ [?log])"
    by simp
  finally have loop: "upload_loop sys conn ?dir (FilesToUpload (Phase3 config)) t2
      = upload_loop sys conn ?dir after (t3 @ [?log])"
    using assms(3) by simp
  from assms(1,2) loop
  have main: "ftp_main sys = (0, upload_loop sys conn ?dir after (t3 @ [?log]) @ [FtpQuit conn])"
    by (simp add: ftp_main_def exit_returned_def)
  have "opened_files (upload_loop sys conn ?dir after (t3 @ [?log]) @ [FtpQuit conn])
      = opened_files t3 @ spec_attempted sys after"
    by (simp add: opened_files_upload_loop)
  with main show ?thesis by simp
qed

theorem ftp_main_upload_failure_witness:
  "FilesToUpload (Phase3 example_config3)
     = ['' public/index.html '', ''''] @ ''missing.txt'' # [''notes.txt'']
   \<and> fst (ftp_main example_sys) = 0
   \<and> LogPrint (UploadFailed ''missing.txt''
         (LocalOpenError ''missing.txt'' (LibError ''no such file'')))
       \<in> set (snd (ftp_main example_sys))
   \<and> opened_files (snd (ftp_main example_sys))
       = [''config.json'', ''public/index.html'', ''missing.txt'', ''notes.txt'']"
proof -
  let ?t2 = "[OsOpen ''config.json'', JsonDecode 0, FileClose 0, FtpDial ''ftp.example.com:21'',
              FtpLogin 7 ''uzivatel'' ''heslo'', LogPrint Connected]"
  let ?t3 = "?t2 @ [OsOpen ''public/index.html'', FtpChangeDir 7 ''/www'',
                    FtpStor 7 ''public/index.html'' 6, LogPrint (Uploaded ''public/index.html''),
                    FileClose 6, OsOpen ''missing.txt'']"
  let ?err = "LocalOpenError ''missing.txt'' (LibError ''no such file'')"
  have load: "loadConfig_phase3 example_sys ''config.json'' []
      = (Inr example_config3, [OsOpen ''config.json'', JsonDecode 0, FileClose 0])"
    by (rule loadConfig_phase3_example)
  have conn: "connectToFtp example_sys (FtpHost (Phase3 example_config3))
      (FtpUser (Phase3 example_config3)) (FtpPassword (Phase3 example_config3))
      [OsOpen ''config.json'', JsonDecode 0, FileClose 0] = (Inr 7, ?t2)"
    by (simp add: example_config3_fields connectToFtp_example)
  have files: "FilesToUpload (Phase3 example_config3)
      = ['' public/index.html '', ''''] @ ''missing.txt'' # [''notes.txt'']"
    by (simp add: example_config3_fields)
  have trim: "strings_TrimSpace example_sys ''missing.txt'' \<noteq> ''''"
    by (simp add: example_sys_calls ascii_TrimSpace_examples)
  have up: "uploadFile example_sys 7 (RemoteDir (Phase3 example_config3))
      (strings_TrimSpace example_sys ''missing.txt'')
      (upload_loop example_sys 7 (RemoteDir (Phase3 example_config3))
         ['' public/index.html '', ''''] ?t2) = (Some ?err, ?t3)"
    unfolding example_config3_fields upload_loop_example_before
    by (simp add: uploadFile_def example_sys_calls ascii_TrimSpace_examples)
  note main = ftp_main_upload_failure [OF load conn files trim up]
  from main have status: "fst (ftp_main example_sys) = 0"
    by (rule conjunct1)
  from main have "opened_files (snd (ftp_main example_sys))
      = opened_files ?t3 @ spec_attempted example_sys [''notes.txt'']"
    by (rule conjunct2 [THEN conjunct2])
  then have opened: "opened_files (snd (ftp_main example_sys))
      = [''config.json'', ''public/index.html'', ''missing.txt'', ''notes.txt'']"
    by (simp add: spec_attempted_def example_sys_calls ascii_TrimSpace_examples)
  have "LogPrint (UploadFailed ''missing.txt'' ?err) \<in> set (snd (ftp_main example_sys))"
    by (simp add: ftp_main_example)
  with files status opened show ?thesis by simp
qed

lemma stored_names_uploadFile:
  "stored_names (snd (uploadFile sys conn remoteDir localFile t)) =
     stored_names t @
       (case os_Open sys t localFile of
          Inl err \<Rightarrow> []
        | Inr file \<Rightarrow>
            (case ftp_ChangeDir sys (t @ [OsOpen localFile]) conn remoteDir of
               Some err \<Rightarrow> []
             | None \<Rightarrow> [localFile]))"
  by (simp add: uploadFile_def Let_def split: sum.splits option.splits)

text \<open>
  C1 as stated fails: \<open>uploadFile\<close> gives \<open>conn.Stor\<close> the string \<open>localFile\<close>, the path it
  opened. In the example run the entry \<open>public/index.html\<close> is stored under the remote name
  \<open>public/index.html\<close>, and its base name is \<open>index.html\<close>.
\<close>

theorem uploadFile_base_name_counterexample:
  "stored_names (snd (ftp_main example_sys)) = [''public/index.html'', ''notes.txt'']
   \<and> map spec_base_name [''public/index.html'', ''notes.txt''] = [''index.html'', ''notes.txt'']"
  by (simp add: ftp_main_example spec_base_name_def)

text \<open>
  When the specification's base name of a path is the path itself: for the non-empty paths
  without a separator, and for the path \<open>/\<close>.
\<close>

lemma spec_base_name_self:
  "spec_base_name path = path
     \<longleftrightarrow> path \<noteq> '''' \<and> (CHR ''/'' \<notin> set path \<or> path = ''/'')"
proof (cases "path = ''''")
  case True
  then show ?thesis by (simp add: spec_base_name_def)
next
  case nonempty: False
  define element where
    "element = rev (takeWhile (\<lambda>c. c \<noteq> CHR ''/'')
                 (rev (rev (dropWhile (\<lambda>c. c = CHR ''/'') (rev path)))))"
  have base: "spec_base_name path = (if element = '''' then ''/'' else element)"
    using nonempty by (simp add: spec_base_name_def Let_def element_def)
  have no_sep: "CHR ''/'' \<notin> set element"
    unfolding element_def
    using set_takeWhileD [of "CHR ''/''" "\<lambda>c. c \<noteq> CHR ''/''"] by auto
  show ?thesis
  proof (cases "CHR ''/'' \<in> set path")
    case False
    then have all: "\<forall>c \<in> set (rev path). c \<noteq> CHR ''/''" by auto
    with nonempty have dw: "dropWhile (\<lambda>c. c = CHR ''/'') (rev path) = rev path"
      by (cases "rev path") auto
    from all have tw: "takeWhile (\<lambda>c. c \<noteq> CHR ''/'') (rev path) = rev path"
      by (simp only: takeWhile_eq_all_conv)
    have "element = path"
      unfolding element_def by (simp only: rev_rev_ident dw tw)
    with base nonempty False show ?thesis by simp
  next
    case True
    show ?thesis
    proof (cases "path = ''/''")
      case True
      then show ?thesis by (simp add: spec_base_name_def)
    next
      case False
      from no_sep \<open>CHR ''/'' \<in> set path\<close> have "element \<noteq> path" by metis
      with base False \<open>CHR ''/'' \<in> set path\<close> nonempty show ?thesis by auto
    qed
  qed
qed

text \<open>
  C1, amended. A call of \<open>uploadFile\<close> makes no store when the local open or the change of
  the remote directory fails, and otherwise makes one store, whose remote name is the
  local path that was given to the call and opened, directory components included. This
  name is the base name of the path exactly when the path is not empty and either has no
  separator \<open>/\<close> or is the path \<open>/\<close>.
\<close>

theorem uploadFile_remote_name:
  "stored_names (snd (uploadFile sys conn remoteDir localFile t)) =
     stored_names t @
       (if (\<exists>file. os_Open sys t localFile = Inr file)
           \<and> ftp_ChangeDir sys (t @ [OsOpen localFile]) conn remoteDir = None
        then [localFile] else [])
   \<and> (localFile = spec_base_name localFile
        \<longleftrightarrow> localFile \<noteq> '''' \<and> (CHR ''/'' \<notin> set localFile \<or> localFile = ''/''))"
proof
  show "stored_names (snd (uploadFile sys conn remoteDir localFile t)) =
     stored_names t @
       (if (\<exists>file. os_Open sys t localFile = Inr file)
           \<and> ftp_ChangeDir sys (t @ [OsOpen localFile]) conn remoteDir = None
        then [localFile] else [])"
    by (cases "os_Open sys t localFile")
      (simp_all add: stored_names_uploadFile split: option.splits)
  show "localFile = spec_base_name localFile
        \<longleftrightarrow> localFile \<noteq> '''' \<and> (CHR ''/'' \<notin> set localFile \<or> localFile = ''/'')"
    using spec_base_name_self [of localFile] by (simp add: eq_commute)
qed

theorem uploadFile_remote_name_witness:
  "(\<exists>file. os_Open example_sys [] ''public/index.html'' = Inr file)
   \<and> ftp_ChangeDir example_sys ([] @ [OsOpen ''public/index.html'']) 7 ''/www'' = None
   \<and> stored_names (snd (uploadFile example_sys 7 ''/www'' ''public/index.html'' []))
       = [''public/index.html'']
   \<and> ''public/index.html'' \<noteq> spec_base_name ''public/index.html''
   \<and> stored_names (snd (uploadFile example_sys 7 ''/www'' ''notes.txt'' [])) = [''notes.txt'']
   \<and> ''notes.txt'' = spec_base_name ''notes.txt''"
  using uploadFile_remote_name [of example_sys 7 "''/www''" "''public/index.html''" "[]"]
    uploadFile_remote_name [of example_sys 7 "''/www''" "''notes.txt''" "[]"]
  by (simp add: example_sys_calls)

section \<open>Exit status of the three programs\<close>





end
